theory Spec2Isabelle
  imports Complex_Main
begin

section \<open>Errors and arrays\<close>

text \<open>
  The exceptions the module can raise: \<open>ValueError\<close> (invalid subgrid tag, shapes that
  do not broadcast), \<open>IndexError\<close> (an integer index outside its axis), \<open>KeyError\<close>
  (a missing dictionary key) and \<open>RuntimeError\<close> (raised by the constructor).
\<close>

datatype error = ValueError string | IndexError | KeyError | RuntimeError string

definition andthen :: "error + 'a \<Rightarrow> ('a \<Rightarrow> error + 'b) \<Rightarrow> error + 'b" where
  "andthen m f = (case m of Inl e \<Rightarrow> Inl e | Inr x \<Rightarrow> f x)"

text \<open>
  A NumPy array is a shape together with a function from index vectors to elements.
  Only the entries whose index lies inside the shape are meaningful. An element of a
  numeric array is modelled by its value, a real number, and a copy keeps the value.
  Arithmetic on elements is NumPy's, done in the dtype of the array (rounded for floats,
  wrapped for integers); it is a parameter of the model, see \<open>dtype\<close> below.
\<close>

record 'a ndarray =
  shp :: "nat list"
  el :: "nat list \<Rightarrow> 'a"

text \<open>
  The subscripts that occur in the source: an integer \<open>k\<close> (negative counts from the
  end), a slice \<open>a:b\<close> with optional bounds, and the reversing slice \<open>::-1\<close>.
\<close>

datatype subscript = I int | S "int option" "int option" | Srev

text \<open>A subscript resolved against an axis: one position, a range (start, extent), or
  the whole axis reversed.\<close>

datatype axis_sel = Fix nat | Rng nat nat | Rev nat

definition clip_bound :: "int \<Rightarrow> nat \<Rightarrow> nat" where
  "clip_bound b n = (if b < 0 then nat (max (b + int n) 0) else min (nat b) n)"

definition resolve :: "subscript \<Rightarrow> nat \<Rightarrow> error + axis_sel" where
  "resolve ix n =
     (case ix of
        I k \<Rightarrow>
          (if - int n \<le> k \<and> k < int n
           then Inr (Fix (nat (if k < 0 then k + int n else k)))
           else Inl IndexError)
      | S a b \<Rightarrow>
          (let start = (case a of None \<Rightarrow> 0 | Some s \<Rightarrow> clip_bound s n);
               stop = (case b of None \<Rightarrow> n | Some s \<Rightarrow> clip_bound s n)
           in Inr (Rng start (stop - start)))
      | Srev \<Rightarrow> Inr (Rev n))"

text \<open>Subscripts are matched with the axes from the left; axes without a subscript are
  taken whole, and more subscripts than axes is an \<open>IndexError\<close>.\<close>

fun resolve_all :: "subscript list \<Rightarrow> nat list \<Rightarrow> error + axis_sel list" where
  "resolve_all [] [] = Inr []"
| "resolve_all [] (n # ns) =
     andthen (resolve_all [] ns) (\<lambda>ss. Inr (Rng 0 n # ss))"
| "resolve_all (ix # ixs) [] = Inl IndexError"
| "resolve_all (ix # ixs) (n # ns) =
     andthen (resolve ix n) (\<lambda>s. andthen (resolve_all ixs ns) (\<lambda>ss. Inr (s # ss)))"

fun sel_shape :: "axis_sel list \<Rightarrow> nat list" where
  "sel_shape [] = []"
| "sel_shape (Fix p # ss) = sel_shape ss"
| "sel_shape (Rng st ex # ss) = ex # sel_shape ss"
| "sel_shape (Rev n # ss) = n # sel_shape ss"

text \<open>From an index of the selected region to the index in the array it was cut from.\<close>

fun src_index :: "axis_sel list \<Rightarrow> nat list \<Rightarrow> nat list" where
  "src_index [] is = []"
| "src_index (Fix p # ss) is = p # src_index ss is"
| "src_index (Rng st ex # ss) is = (st + hd is) # src_index ss (tl is)"
| "src_index (Rev n # ss) is = (n - 1 - hd is) # src_index ss (tl is)"

text \<open>The converse: the position inside the region of an index of the array, if it lies
  in the region.\<close>

fun rel_index :: "axis_sel list \<Rightarrow> nat list \<Rightarrow> nat list option" where
  "rel_index [] is = Some []"
| "rel_index (s # ss) [] = None"
| "rel_index (Fix p # ss) (i # is) = (if i = p then rel_index ss is else None)"
| "rel_index (Rng st ex # ss) (i # is) =
     (if st \<le> i \<and> i < st + ex then map_option ((#) (i - st)) (rel_index ss is) else None)"
| "rel_index (Rev n # ss) (i # is) =
     (if i < n then map_option ((#) (n - 1 - i)) (rel_index ss is) else None)"

text \<open>Broadcasting of a right-hand side of shape \<open>rs\<close> to a region of shape \<open>ls\<close>: the
  shapes are aligned at the right and each axis of \<open>rs\<close> has the length of the region's
  axis or length 1.\<close>

definition broadcastable :: "nat list \<Rightarrow> nat list \<Rightarrow> bool" where
  "broadcastable rs ls =
     (length rs \<le> length ls \<and>
      list_all2 (\<lambda>r l. r = l \<or> r = 1) rs (drop (length ls - length rs) ls))"

definition bc_index :: "nat list \<Rightarrow> nat list \<Rightarrow> nat list" where
  "bc_index rs is =
     map2 (\<lambda>r i. if r = 1 then 0 else i) rs (drop (length is - length rs) is)"

definition full :: "nat list \<Rightarrow> 'a \<Rightarrow> 'a ndarray" where
  "full shape fill_value = \<lparr>shp = shape, el = (\<lambda>_. fill_value)\<rparr>"

definition getitem :: "'a ndarray \<Rightarrow> subscript list \<Rightarrow> error + 'a ndarray" where
  "getitem a ixs =
     andthen (resolve_all ixs (shp a))
       (\<lambda>ss. Inr \<lparr>shp = sel_shape ss, el = (\<lambda>is. el a (src_index ss is))\<rparr>)"

definition setitem :: "'a ndarray \<Rightarrow> subscript list \<Rightarrow> 'a ndarray \<Rightarrow> error + 'a ndarray" where
  "setitem a ixs b =
     andthen (resolve_all ixs (shp a))
       (\<lambda>ss. if broadcastable (shp b) (sel_shape ss)
             then Inr (a\<lparr>el := (\<lambda>is. case rel_index ss is of
                                        None \<Rightarrow> el a is
                                      | Some r \<Rightarrow> el b (bc_index (shp b) r))\<rparr>)
             else Inl (ValueError ''could not broadcast input array''))"

definition transpose_nd :: "'a ndarray \<Rightarrow> 'a ndarray" where
  "transpose_nd a = \<lparr>shp = rev (shp a), el = (\<lambda>is. el a (rev is))\<rparr>"

definition amap :: "('a \<Rightarrow> 'b) \<Rightarrow> 'a ndarray \<Rightarrow> 'b ndarray" where
  "amap f a = \<lparr>shp = shp a, el = (\<lambda>is. f (el a is))\<rparr>"

text \<open>Elementwise binary operations broadcast their operands against each other; the
  shapes are compared from the last axis backwards.\<close>

fun bshape_rev :: "nat list \<Rightarrow> nat list \<Rightarrow> nat list option" where
  "bshape_rev [] ys = Some ys"
| "bshape_rev (x # xs) [] = Some (x # xs)"
| "bshape_rev (x # xs) (y # ys) =
     (if x = y \<or> y = 1 then map_option ((#) x) (bshape_rev xs ys)
      else if x = 1 then map_option ((#) y) (bshape_rev xs ys)
      else None)"

definition binop :: "('a \<Rightarrow> 'a \<Rightarrow> 'a) \<Rightarrow> 'a ndarray \<Rightarrow> 'a ndarray \<Rightarrow> error + 'a ndarray" where
  "binop f a b =
     (case bshape_rev (rev (shp a)) (rev (shp b)) of
        None \<Rightarrow> Inl (ValueError ''operands could not be broadcast together'')
      | Some rs \<Rightarrow>
          Inr \<lparr>shp = rev rs,
               el = (\<lambda>is. f (el a (bc_index (shp a) is)) (el b (bc_index (shp b) is)))\<rparr>)"

text \<open>\<open>a.take(ks, axis, mode)\<close> with the two modes the source uses: out-of-range
  indices wrap around or are clipped to the axis. Taking from an empty axis raises.\<close>

datatype take_mode = Wrap | Clip

definition pick :: "take_mode \<Rightarrow> nat \<Rightarrow> int \<Rightarrow> nat" where
  "pick m n k =
     (case m of Wrap \<Rightarrow> nat (k mod int n) | Clip \<Rightarrow> nat (max 0 (min k (int n - 1))))"

definition take_nd :: "'a ndarray \<Rightarrow> int list \<Rightarrow> nat \<Rightarrow> take_mode \<Rightarrow> error + 'a ndarray" where
  "take_nd a ks axis m =
     (if length (shp a) \<le> axis then Inl (ValueError ''axis is out of bounds'')
      else if shp a ! axis = 0 \<and> ks \<noteq> [] then Inl IndexError
      else Inr \<lparr>shp = (shp a)[axis := length ks],
                el = (\<lambda>is. el a (is[axis := pick m (shp a ! axis) (ks ! (is ! axis))]))\<rparr>)"

definition shape_at :: "'a ndarray \<Rightarrow> nat \<Rightarrow> error + nat" where
  "shape_at a k = (if k < length (shp a) then Inr (shp a ! k) else Inl IndexError)"

definition range_py :: "nat \<Rightarrow> nat \<Rightarrow> int list" where
  "range_py lo hi = map int [lo ..< hi]"

section \<open>Statements\<close>

text \<open>\<open>target[ixs] = rhs\<close>: the right-hand side is evaluated first, then stored. A
  block of statements stops at the first exception.\<close>

definition assign :: "subscript list \<Rightarrow> error + 'a ndarray \<Rightarrow> 'a ndarray \<Rightarrow> error + 'a ndarray" where
  "assign ixs rhs a = andthen rhs (\<lambda>b. setitem a ixs b)"

fun exec :: "('s \<Rightarrow> error + 's) list \<Rightarrow> 's \<Rightarrow> error + 's" where
  "exec [] s = Inr s"
| "exec (st # sts) s = andthen (st s) (exec sts)"

text \<open>
  The arithmetic of the dtype of a coordinate variable: \<open>multiply dt x y\<close> is the element
  NumPy computes for \<open>x * y\<close> and \<open>subtract dt x y\<close> the one for \<open>x - y\<close>. Nothing is
  assumed about them.
\<close>

record dtype =
  multiply :: "real \<Rightarrow> real \<Rightarrow> real"
  subtract :: "real \<Rightarrow> real \<Rightarrow> real"

text \<open>The expression \<open>2 * x - y\<close> on arrays: first \<open>2 * x\<close>, elementwise, then the
  difference with \<open>y\<close>, both in the arrays' dtype.\<close>

definition reflect ::
  "dtype \<Rightarrow> error + real ndarray \<Rightarrow> error + real ndarray \<Rightarrow> error + real ndarray" where
  "reflect dt x y =
     andthen x (\<lambda>a. andthen y (\<lambda>b. binop (subtract dt) (amap (multiply dt 2) a) b))"

abbreviation whole :: subscript where "whole \<equiv> S None None"
abbreviation from1 :: subscript where "from1 \<equiv> S (Some 1) None"
abbreviation but_last :: subscript where "but_last \<equiv> S None (Some (- 1))"

section \<open>The dataset and the grid object\<close>

text \<open>
  A NetCDF dataset as the module uses it: named dimension sizes and named variables.
  A file name stands for the dataset it opens.
\<close>

record dataset =
  dimensions :: "string \<rightharpoonup> nat"
  variables :: "string \<rightharpoonup> real ndarray"

definition lookup :: "('k \<rightharpoonup> 'v) \<Rightarrow> 'k \<Rightarrow> error + 'v" where
  "lookup m k = (case m k of None \<Rightarrow> Inl KeyError | Some v \<Rightarrow> Inr v)"

text \<open>\<open>nc.variables[name][0, ...].data.T\<close>\<close>

definition read_var :: "dataset \<Rightarrow> string \<Rightarrow> error + real ndarray" where
  "read_var nc vname =
     andthen (lookup (variables nc) vname)
       (\<lambda>var. andthen (getitem var [I 0]) (\<lambda>a. Inr (transpose_nd a)))"

definition MISSING_VALUE :: real where
  "MISSING_VALUE = 10 ^ 20"

definition check :: "string \<Rightarrow> error + unit" where
  "check subgrid =
     (if \<not> subgrid \<in> set [''t'', ''u'', ''v'']
      then Inl (ValueError (''Invalid ORCA subgrid: '' @ [CHR 0x22] @ subgrid @ [CHR 0x22]))
      else Inr ())"

definition orca_names :: "nat \<times> nat \<times> nat \<rightharpoonup> string" where
  "orca_names = map_of [((362, 292, 75), ''ORCA1L75''), ((360, 331, 75), ''eORCA1L75'')]"

record OrcaGrid =
  domain_cfg :: dataset
  masks :: "dataset option"
  shape :: "nat \<times> nat"
  size_g :: nat
  name :: string

definition domain_vars :: "string list" where
  "domain_vars =
     [''glamt'', ''glamu'', ''glamv'', ''glamf'', ''gphit'', ''gphiu'', ''gphiv'', ''gphif'',
      ''e1t'', ''e1u'', ''e1v'', ''e1f'', ''e2t'', ''e2u'', ''e2v'', ''e2f'', ''top_level'']"

definition issubset :: "string list \<Rightarrow> (string \<rightharpoonup> 'v) \<Rightarrow> bool" where
  "issubset names m = list_all (\<lambda>n. m n \<noteq> None) names"

definition OrcaGrid_init :: "dataset \<Rightarrow> dataset option \<Rightarrow> error + OrcaGrid" where
  "OrcaGrid_init cfg msk =
     (case (dimensions cfg ''x'', dimensions cfg ''y'', dimensions cfg ''z'') of
        (Some ni, Some nj, Some nk) \<Rightarrow>
          (case orca_names (ni, nj, nk) of
             None \<Rightarrow> Inl (RuntimeError ''Unknown dimensions in NEMO domain config'')
           | Some nm \<Rightarrow>
               if \<not> issubset domain_vars (variables cfg)
               then Inl (RuntimeError ''Missing variables in NEMO domain config'')
               else
                 (let self = \<lparr>domain_cfg = cfg, masks = msk, shape = (ni, nj),
                              size_g = ni * nj, name = nm\<rparr>
                  in case msk of
                       None \<Rightarrow> Inr self
                     | Some nc \<Rightarrow>
                         if \<not> issubset [''tmaskutil'', ''umaskutil'', ''vmaskutil''] (variables nc)
                         then Inl (RuntimeError ''Missing variables in NEMO masks file'')
                         else Inr self))
      | _ \<Rightarrow> Inl (RuntimeError ''Missing dimensions in NEMO domain config''))"

section \<open>Corner synthesis\<close>

text \<open>\<open>subgrid in ("t")\<close> tests a string against the string \<open>"t"\<close>: it holds when
  \<open>subgrid\<close> occurs in \<open>"t"\<close> as a substring.\<close>

fun str_in :: "string \<Rightarrow> string \<Rightarrow> bool" where
  "str_in s [] = (s = [])"
| "str_in s (c # t) = (take (length s) (c # t) = s \<or> str_in s t)"

definition lat_var :: "string \<rightharpoonup> string" where
  "lat_var = map_of [(''t'', ''gphif''), (''u'', ''gphiv''), (''v'', ''gphiu'')]"

definition lon_var :: "string \<rightharpoonup> string" where
  "lon_var = map_of [(''t'', ''glamf''), (''u'', ''glamv''), (''v'', ''glamu'')]"

text \<open>The body of \<open>read_corner_latitudes\<close> after the coordinate array has been read,
  with the dtype \<open>dt\<close> of that array and the value the corner array is initialised to as
  parameters.\<close>

definition corner_lats_of ::
  "dtype \<Rightarrow> real \<Rightarrow> nat \<times> nat \<Rightarrow> string \<Rightarrow> real ndarray \<Rightarrow> error + real ndarray" where
  "corner_lats_of dt fill_value dims subgrid lat_values =
     (let corner_lats = full [fst dims, snd dims, 4] fill_value in
      if str_in subgrid ''t'' then
        exec
          [assign [whole, whole, I 0] (Inr lat_values),
           assign [from1, whole, I 1] (getitem lat_values [but_last, whole]),
           assign [I 0, whole, I 1] (getitem lat_values [I (- 1), whole]),
           assign [whole, from1, I 3] (getitem lat_values [whole, but_last]),
           assign [whole, I 0, I 3]
             (reflect dt (getitem lat_values [whole, I 1]) (getitem lat_values [whole, I 2])),
           assign [from1, from1, I 2] (getitem lat_values [but_last, but_last]),
           assign [I 0, from1, I 2] (getitem lat_values [I (- 1), but_last]),
           assign [from1, I 0, I 2]
             (reflect dt (getitem lat_values [but_last, I 1]) (getitem lat_values [but_last, I 2])),
           assign [I 0, I 0, I 2]
             (reflect dt (getitem lat_values [I (- 1), I 1]) (getitem lat_values [I (- 1), I 2]))]
          corner_lats
      else if subgrid = ''u'' then
        exec
          [assign [whole, whole, I 1] (Inr lat_values),
           assign [but_last, whole, I 0] (getitem lat_values [from1, whole]),
           assign [I (- 1), whole, I 0] (getitem lat_values [I 0, whole]),
           assign [whole, from1, I 2] (getitem lat_values [whole, but_last]),
           assign [whole, I 0, I 2]
             (reflect dt (getitem lat_values [whole, I 1]) (getitem lat_values [whole, I 2])),
           assign [but_last, from1, I 3] (getitem lat_values [from1, but_last]),
           assign [I (- 1), from1, I 3] (getitem lat_values [I 0, but_last]),
           assign [but_last, I 0, I 3]
             (reflect dt (getitem lat_values [from1, I 1]) (getitem lat_values [from1, I 2])),
           assign [I (- 1), I 0, I 3]
             (reflect dt (getitem lat_values [I 0, I 1]) (getitem lat_values [I 0, I 2]))]
          corner_lats
      else if subgrid = ''v'' then
        andthen (getitem lat_values [Srev, I (- 1)])
          (\<lambda>rever_lats.
             exec
               [assign [whole, but_last, I 0] (getitem lat_values [whole, from1]),
                assign [but_last, I (- 1), I 0] (getitem rever_lats [from1]),
                assign [I (- 1), I (- 1), I 0] (getitem rever_lats [I 0]),
                assign [from1, but_last, I 1] (getitem lat_values [but_last, from1]),
                assign [I 0, but_last, I 1] (getitem lat_values [I (- 1), from1]),
                assign [whole, I (- 1), I 1] (getitem rever_lats [whole]),
                assign [from1, whole, I 2] (getitem lat_values [but_last, whole]),
                assign [I 0, whole, I 2] (getitem lat_values [I (- 1), whole]),
                assign [whole, whole, I 3] (Inr lat_values)]
               corner_lats)
      else Inr corner_lats)"

definition corner_lons_of :: "real \<Rightarrow> nat \<times> nat \<Rightarrow> string \<Rightarrow> real ndarray \<Rightarrow> error + real ndarray" where
  "corner_lons_of fill_value dims subgrid lon_values =
     (let corner_lons = full [fst dims, snd dims, 4] fill_value in
      if str_in subgrid ''t'' then
        exec
          [assign [whole, whole, I 0] (Inr lon_values),
           assign [from1, whole, I 1] (getitem lon_values [but_last, whole]),
           assign [I 0, whole, I 1] (getitem lon_values [I (- 1), whole]),
           assign [whole, from1, I 3] (getitem lon_values [whole, but_last]),
           assign [whole, I 0, I 3] (getitem lon_values [whole, I 1]),
           assign [from1, from1, I 2] (getitem lon_values [but_last, but_last]),
           assign [I 0, from1, I 2] (getitem lon_values [I (- 1), but_last]),
           assign [from1, I 0, I 2] (getitem lon_values [but_last, I 1]),
           assign [I 0, I 0, I 2] (getitem lon_values [I (- 1), I 1])]
          corner_lons
      else if subgrid = ''u'' then
        exec
          [assign [whole, whole, I 1] (Inr lon_values),
           assign [but_last, whole, I 0] (getitem lon_values [from1, whole]),
           assign [I (- 1), whole, I 0] (getitem lon_values [I 0, whole]),
           assign [whole, from1, I 2] (getitem lon_values [whole, but_last]),
           assign [whole, I 0, I 2] (getitem lon_values [whole, I 1]),
           assign [but_last, from1, I 3] (getitem lon_values [from1, but_last]),
           assign [I (- 1), from1, I 3] (getitem lon_values [I 0, but_last]),
           (\<lambda>c. assign [whole, I 0, I 3] (getitem c [whole, I 1, I 3]) c)]
          corner_lons
      else if subgrid = ''v'' then
        andthen (getitem lon_values [Srev, I (- 1)])
          (\<lambda>rever_lons.
             exec
               [assign [whole, but_last, I 0] (getitem lon_values [whole, from1]),
                assign [but_last, I (- 1), I 0] (getitem rever_lons [from1]),
                assign [I (- 1), I (- 1), I 0] (getitem rever_lons [I 0]),
                assign [from1, but_last, I 1] (getitem lon_values [but_last, from1]),
                assign [I 0, but_last, I 1] (getitem lon_values [I (- 1), from1]),
                assign [whole, I (- 1), I 1] (getitem rever_lons [whole]),
                assign [from1, whole, I 2] (getitem lon_values [but_last, whole]),
                assign [I 0, whole, I 2] (getitem lon_values [I (- 1), whole]),
                assign [whole, whole, I 3] (Inr lon_values)]
               corner_lons)
      else Inr corner_lons)"

text \<open>The two methods; \<open>_MISSING_VALUE\<close> is the module constant and \<open>dt\<close> the dtype of
  the latitude variable that is read. The longitudes are only copied.\<close>

definition read_corner_latitudes_mv ::
  "dtype \<Rightarrow> real \<Rightarrow> OrcaGrid \<Rightarrow> string \<Rightarrow> error + real ndarray" where
  "read_corner_latitudes_mv dt mv self subgrid =
     andthen (check subgrid) (\<lambda>_.
     andthen (lookup lat_var subgrid) (\<lambda>vname.
     andthen (read_var (domain_cfg self) vname) (\<lambda>lat_values.
       corner_lats_of dt mv (shape self) subgrid lat_values)))"

definition read_corner_latitudes :: "dtype \<Rightarrow> OrcaGrid \<Rightarrow> string \<Rightarrow> error + real ndarray" where
  "read_corner_latitudes dt = read_corner_latitudes_mv dt MISSING_VALUE"

definition read_corner_longitudes_mv :: "real \<Rightarrow> OrcaGrid \<Rightarrow> string \<Rightarrow> error + real ndarray" where
  "read_corner_longitudes_mv mv self subgrid =
     andthen (check subgrid) (\<lambda>_.
     andthen (lookup lon_var subgrid) (\<lambda>vname.
     andthen (read_var (domain_cfg self) vname) (\<lambda>lon_values.
       corner_lons_of mv (shape self) subgrid lon_values)))"

definition read_corner_longitudes :: "OrcaGrid \<Rightarrow> string \<Rightarrow> error + real ndarray" where
  "read_corner_longitudes = read_corner_longitudes_mv MISSING_VALUE"

section \<open>Masks\<close>

definition read_mask :: "OrcaGrid \<Rightarrow> string \<Rightarrow> error + int ndarray option" where
  "read_mask self subgrid =
     andthen (check subgrid) (\<lambda>_.
       case masks self of
         Some nc \<Rightarrow>
           andthen (read_var nc (subgrid @ ''maskutil''))
             (\<lambda>util. Inr (Some (amap (\<lambda>x. if x > 0 then 0 else 1) util)))
       | None \<Rightarrow>
           andthen (read_var (domain_cfg self) ''top_level'')
             (\<lambda>top_level.
                let tmask = amap (\<lambda>x. if x = 0 then 1 else 0) top_level in
                if subgrid = ''t'' then Inr (Some tmask)
                else if subgrid = ''u'' then
                  andthen (shape_at tmask 0) (\<lambda>n.
                  andthen (take_nd tmask (range_py 1 (n + 1)) 0 Wrap) (\<lambda>shifted.
                  andthen (binop (*) tmask shifted) (\<lambda>umask. Inr (Some umask))))
                else if subgrid = ''v'' then
                  andthen (shape_at tmask 1) (\<lambda>n.
                  andthen (take_nd tmask (range_py 1 (n + 1)) 1 Clip) (\<lambda>shifted.
                  andthen (binop (*) tmask shifted) (\<lambda>vmask. Inr (Some vmask))))
                else Inr None))"

section \<open>Reading results\<close>

text \<open>\<open>result[is]\<close> for a call that may have raised: the entry of the returned array
  at an index inside its shape.\<close>

definition entry :: "error + 'a ndarray \<Rightarrow> nat list \<Rightarrow> 'a option" where
  "entry r is =
     (case r of
        Inl e \<Rightarrow> None
      | Inr a \<Rightarrow> if list_all2 (<) is (shp a) then Some (el a is) else None)"

definition shape_of :: "error + 'a ndarray \<Rightarrow> nat list option" where
  "shape_of r = (case r of Inl e \<Rightarrow> None | Inr a \<Rightarrow> Some (shp a))"

text \<open>\<open>read_mask\<close> returns \<open>None\<close> when no branch returns; \<open>returned\<close> is the array of a
  call that returned one.\<close>

definition returned :: "error + 'a ndarray option \<Rightarrow> error + 'a ndarray" where
  "returned r =
     (case r of
        Inl e \<Rightarrow> Inl e
      | Inr None \<Rightarrow> Inl (ValueError ''None'')
      | Inr (Some a) \<Rightarrow> Inr a)"

section \<open>A dataset of a supported configuration\<close>

text \<open>
  Datasets with the dimensions of ORCA1L75. In \<open>ramp_cfg\<close> every variable holds
  \<open>x + 1000 * y\<close> at the point \<open>(x, y)\<close>, so \<open>top_level\<close> is zero at \<open>(0, 0)\<close> only;
  in \<open>zero_cfg\<close> every variable is zero everywhere. The array \<open>parabola\<close> holds
  \<open>x + 1000 * y * y\<close>, which is not linear in \<open>y\<close>, and \<open>steps\<close> holds 100 in row 1,
  -100 in row 2 and 0 elsewhere.

  Two dtypes: \<open>exact\<close> computes without rounding, as float64 does on integers of this
  size, and \<open>int8\<close> wraps around at 8 bits.
\<close>

definition exact :: dtype where
  "exact = \<lparr>multiply = (*), subtract = (-)\<rparr>"

definition wrap8 :: "real \<Rightarrow> real" where
  "wrap8 x = real_of_int ((\<lfloor>x\<rfloor> + 128) mod 256 - 128)"

definition int8 :: dtype where
  "int8 = \<lparr>multiply = (\<lambda>x y. wrap8 (x * y)), subtract = (\<lambda>x y. wrap8 (x - y))\<rparr>"

definition parabola :: "real ndarray" where
  "parabola =
     \<lparr>shp = [1, 292, 362],
      el = (\<lambda>is. real (is ! 2) + 1000 * real (is ! 1) * real (is ! 1))\<rparr>"

definition steps :: "real ndarray" where
  "steps =
     \<lparr>shp = [1, 292, 362],
      el = (\<lambda>is. if is ! 1 = 1 then 100 else if is ! 1 = 2 then - 100 else 0)\<rparr>"

definition ramp :: "real ndarray" where
  "ramp = \<lparr>shp = [1, 292, 362], el = (\<lambda>is. real (is ! 2) + 1000 * real (is ! 1))\<rparr>"

definition zeros :: "real ndarray" where
  "zeros = \<lparr>shp = [1, 292, 362], el = (\<lambda>is. 0)\<rparr>"

definition dataset_of :: "real ndarray \<Rightarrow> dataset" where
  "dataset_of a =
     \<lparr>dimensions = map_of [(''x'', 362), (''y'', 292), (''z'', 75)],
      variables = (\<lambda>n. if n \<in> set domain_vars then Some a else None)\<rparr>"

definition ramp_cfg :: dataset where
  "ramp_cfg = dataset_of ramp"

definition zero_cfg :: dataset where
  "zero_cfg = dataset_of zeros"

definition grid_of :: "dataset \<Rightarrow> OrcaGrid" where
  "grid_of cfg =
     \<lparr>domain_cfg = cfg, masks = None, shape = (362, 292), size_g = 362 * 292,
      name = ''ORCA1L75''\<rparr>"

section \<open>Subscripts of the source, resolved\<close>

lemma andthen_Inr [simp]: "andthen (Inr x) f = f x"
  by (simp add: andthen_def)

lemma andthen_Inl [simp]: "andthen (Inl e) f = Inl e"
  by (simp add: andthen_def)

lemma resolve_whole [simp]: "resolve whole n = Inr (Rng 0 n)"
  by (simp add: resolve_def)

lemma resolve_from1 [simp]: "0 < n \<Longrightarrow> resolve from1 n = Inr (Rng 1 (n - 1))"
  by (simp add: resolve_def clip_bound_def)

lemma resolve_but_last [simp]: "resolve but_last n = Inr (Rng 0 (n - 1))"
  by (auto simp add: resolve_def clip_bound_def max_def nat_diff_distrib)

lemma resolve_Srev [simp]: "resolve Srev n = Inr (Rev n)"
  by (simp add: resolve_def)

lemma resolve_I_0 [simp]: "0 < n \<Longrightarrow> resolve (I 0) n = Inr (Fix 0)"
  by (simp add: resolve_def)

lemma resolve_I_1 [simp]: "1 < n \<Longrightarrow> resolve (I 1) n = Inr (Fix 1)"
  by (simp add: resolve_def)

lemma resolve_I_num [simp]:
  "numeral k < n \<Longrightarrow> resolve (I (numeral k)) n = Inr (Fix (numeral k))"
  by (auto simp add: resolve_def) (metis negative_zle of_nat_numeral)

lemma resolve_I_last [simp]: "0 < n \<Longrightarrow> resolve (I (- 1)) n = Inr (Fix (n - 1))"
  by (auto simp add: resolve_def nat_diff_distrib)

lemma range_py_nth: "i < n \<Longrightarrow> range_py (Suc 0) (Suc n) ! i = int (Suc i)"
  by (simp add: range_py_def del: upt_Suc)

lemma range_py_length: "length (range_py (Suc 0) (Suc n)) = n"
  by (simp add: range_py_def del: upt_Suc)

lemma pick_wrap: "i < n \<Longrightarrow> pick Wrap n (range_py (Suc 0) (Suc n) ! i) = Suc i mod n"
  by (simp add: pick_def range_py_nth nat_mod_distrib del: of_nat_Suc flip: zmod_int)

lemma pick_clip: "j < n \<Longrightarrow> pick Clip n (range_py (Suc 0) (Suc n) ! j) = min (Suc j) (n - 1)"
  by (auto simp add: pick_def range_py_nth min_def max_def)

lemma bshape_rev_same: "bshape_rev xs xs = Some xs"
  by (induction xs) auto

lemmas nd_defs = full_def assign_def getitem_def setitem_def reflect_def binop_def amap_def
  broadcastable_def bc_index_def

lemmas rd_defs = check_def lookup_def lat_var_def lon_var_def read_var_def transpose_nd_def
  read_corner_latitudes_mv_def read_corner_longitudes_mv_def corner_lats_of_def
  corner_lons_of_def entry_def Let_def

lemmas mask_defs = read_mask_def check_def read_var_def lookup_def getitem_def transpose_nd_def
  amap_def returned_def entry_def shape_at_def take_nd_def binop_def bshape_rev_same
  bc_index_def pick_wrap pick_clip range_py_length

section \<open>What each branch stores\<close>

text \<open>
  For each subgrid, the entry of the returned corner array at cell \<open>(i, j)\<close> and corner
  \<open>k\<close>, in terms of the variable \<open>a\<close> of the dataset the method reads (indexed
  \<open>[t, y, x]\<close>). The entries do not mention the value the array was initialised to.
\<close>

lemma lat_t:
  assumes "shape self = (ni, nj)" "1 \<le> ni" "3 \<le> nj"
    and "variables (domain_cfg self) ''gphif'' = Some a" "shp a = [nt, nj, ni]" "0 < nt"
    and "i < ni" "j < nj"
  shows "entry (read_corner_latitudes_mv dt mv self ''t'') [i, j, 0] = Some (el a [0, j, i])"
    and "entry (read_corner_latitudes_mv dt mv self ''t'') [i, j, 1] =
           Some (el a [0, j, if i = 0 then ni - 1 else i - 1])"
    and "entry (read_corner_latitudes_mv dt mv self ''t'') [i, j, 2] =
           Some (if j = 0
                 then subtract dt (multiply dt 2 (el a [0, 1, if i = 0 then ni - 1 else i - 1]))
                        (el a [0, 2, if i = 0 then ni - 1 else i - 1])
                 else el a [0, j - 1, if i = 0 then ni - 1 else i - 1])"
    and "entry (read_corner_latitudes_mv dt mv self ''t'') [i, j, 3] =
           Some (if j = 0 then subtract dt (multiply dt 2 (el a [0, 1, i])) (el a [0, 2, i])
                 else el a [0, j - 1, i])"
  using assms by (auto simp add: rd_defs nd_defs)

lemma lat_u:
  assumes "shape self = (ni, nj)" "1 \<le> ni" "3 \<le> nj"
    and "variables (domain_cfg self) ''gphiv'' = Some a" "shp a = [nt, nj, ni]" "0 < nt"
    and "i < ni" "j < nj"
  shows "entry (read_corner_latitudes_mv dt mv self ''u'') [i, j, 0] =
           Some (el a [0, j, if i = ni - 1 then 0 else i + 1])"
    and "entry (read_corner_latitudes_mv dt mv self ''u'') [i, j, 1] = Some (el a [0, j, i])"
    and "entry (read_corner_latitudes_mv dt mv self ''u'') [i, j, 2] =
           Some (if j = 0 then subtract dt (multiply dt 2 (el a [0, 1, i])) (el a [0, 2, i])
                 else el a [0, j - 1, i])"
    and "entry (read_corner_latitudes_mv dt mv self ''u'') [i, j, 3] =
           Some (if j = 0
                 then subtract dt (multiply dt 2 (el a [0, 1, if i = ni - 1 then 0 else i + 1]))
                        (el a [0, 2, if i = ni - 1 then 0 else i + 1])
                 else el a [0, j - 1, if i = ni - 1 then 0 else i + 1])"
  using assms by (auto simp add: rd_defs nd_defs)

lemma lat_v:
  assumes "shape self = (ni, nj)" "1 \<le> ni" "1 \<le> nj"
    and "variables (domain_cfg self) ''gphiu'' = Some a" "shp a = [nt, nj, ni]" "0 < nt"
    and "i < ni" "j < nj"
  shows "entry (read_corner_latitudes_mv dt mv self ''v'') [i, j, 0] =
           Some (if j = nj - 1
                 then (if i = ni - 1 then el a [0, nj - 1, ni - 1]
                       else el a [0, nj - 1, ni - 2 - i])
                 else el a [0, j + 1, i])"
    and "entry (read_corner_latitudes_mv dt mv self ''v'') [i, j, 1] =
           Some (if j = nj - 1 then el a [0, nj - 1, ni - 1 - i]
                 else el a [0, j + 1, if i = 0 then ni - 1 else i - 1])"
    and "entry (read_corner_latitudes_mv dt mv self ''v'') [i, j, 2] =
           Some (el a [0, j, if i = 0 then ni - 1 else i - 1])"
    and "entry (read_corner_latitudes_mv dt mv self ''v'') [i, j, 3] = Some (el a [0, j, i])"
  using assms by (auto simp add: rd_defs nd_defs)

lemma lon_t:
  assumes "shape self = (ni, nj)" "1 \<le> ni" "2 \<le> nj"
    and "variables (domain_cfg self) ''glamf'' = Some a" "shp a = [nt, nj, ni]" "0 < nt"
    and "i < ni" "j < nj"
  shows "entry (read_corner_longitudes_mv mv self ''t'') [i, j, 0] = Some (el a [0, j, i])"
    and "entry (read_corner_longitudes_mv mv self ''t'') [i, j, 1] =
           Some (el a [0, j, if i = 0 then ni - 1 else i - 1])"
    and "entry (read_corner_longitudes_mv mv self ''t'') [i, j, 2] =
           Some (if j = 0 then el a [0, 1, if i = 0 then ni - 1 else i - 1]
                 else el a [0, j - 1, if i = 0 then ni - 1 else i - 1])"
    and "entry (read_corner_longitudes_mv mv self ''t'') [i, j, 3] =
           Some (if j = 0 then el a [0, 1, i] else el a [0, j - 1, i])"
  using assms by (auto simp add: rd_defs nd_defs)

lemma lon_u:
  assumes "shape self = (ni, nj)" "1 \<le> ni" "2 \<le> nj"
    and "variables (domain_cfg self) ''glamv'' = Some a" "shp a = [nt, nj, ni]" "0 < nt"
    and "i < ni" "j < nj"
  shows "entry (read_corner_longitudes_mv mv self ''u'') [i, j, 0] =
           Some (el a [0, j, if i = ni - 1 then 0 else i + 1])"
    and "entry (read_corner_longitudes_mv mv self ''u'') [i, j, 1] = Some (el a [0, j, i])"
    and "entry (read_corner_longitudes_mv mv self ''u'') [i, j, 2] =
           Some (if j = 0 then el a [0, 1, i] else el a [0, j - 1, i])"
    and "entry (read_corner_longitudes_mv mv self ''u'') [i, j, 3] =
           Some (if j = 0 then el a [0, 0, if i = ni - 1 then 0 else i + 1]
                 else el a [0, j - 1, if i = ni - 1 then 0 else i + 1])"
  using assms by (auto simp add: rd_defs nd_defs)

lemma lon_v:
  assumes "shape self = (ni, nj)" "1 \<le> ni" "1 \<le> nj"
    and "variables (domain_cfg self) ''glamu'' = Some a" "shp a = [nt, nj, ni]" "0 < nt"
    and "i < ni" "j < nj"
  shows "entry (read_corner_longitudes_mv mv self ''v'') [i, j, 0] =
           Some (if j = nj - 1
                 then (if i = ni - 1 then el a [0, nj - 1, ni - 1]
                       else el a [0, nj - 1, ni - 2 - i])
                 else el a [0, j + 1, i])"
    and "entry (read_corner_longitudes_mv mv self ''v'') [i, j, 1] =
           Some (if j = nj - 1 then el a [0, nj - 1, ni - 1 - i]
                 else el a [0, j + 1, if i = 0 then ni - 1 else i - 1])"
    and "entry (read_corner_longitudes_mv mv self ''v'') [i, j, 2] =
           Some (el a [0, j, if i = 0 then ni - 1 else i - 1])"
    and "entry (read_corner_longitudes_mv mv self ''v'') [i, j, 3] = Some (el a [0, j, i])"
  using assms by (auto simp add: rd_defs nd_defs)

lemma corner_shapes:
  assumes "shape self = (ni, nj)" "1 \<le> ni" "3 \<le> nj" "subgrid \<in> {''t'', ''u'', ''v''}"
    and "lat_var subgrid = Some la" "variables (domain_cfg self) la = Some a"
    and "shp a = [nt, nj, ni]" "0 < nt"
  shows "shape_of (read_corner_latitudes_mv dt mv self subgrid) = Some [ni, nj, 4]"
  using assms by (auto simp add: rd_defs nd_defs shape_of_def)

lemma corner_shapes_lon:
  assumes "shape self = (ni, nj)" "1 \<le> ni" "3 \<le> nj" "subgrid \<in> {''t'', ''u'', ''v''}"
    and "lon_var subgrid = Some lo" "variables (domain_cfg self) lo = Some b"
    and "shp b = [nt, nj, ni]" "0 < nt"
  shows "shape_of (read_corner_longitudes_mv mv self subgrid) = Some [ni, nj, 4]"
  using assms by (auto simp add: rd_defs nd_defs shape_of_def)

lemma mask_t:
  assumes "masks self = None" "variables (domain_cfg self) ''top_level'' = Some a"
    and "shp a = [nt, nj, ni]" "0 < nt" "i < ni" "j < nj"
  shows "entry (returned (read_mask self ''t'')) [i, j] =
           Some (if el a [0, j, i] = 0 then 1 else 0)"
  using assms by (simp add: mask_defs)

lemma mask_u:
  assumes "masks self = None" "variables (domain_cfg self) ''top_level'' = Some a"
    and "shp a = [nt, nj, ni]" "0 < nt" "i < ni" "j < nj"
  shows "entry (returned (read_mask self ''u'')) [i, j] =
           Some ((if el a [0, j, i] = 0 then 1 else 0) *
                 (if el a [0, j, Suc i mod ni] = 0 then 1 else 0))"
  using assms by (auto simp add: mask_defs)

lemma mask_v:
  assumes "masks self = None" "variables (domain_cfg self) ''top_level'' = Some a"
    and "shp a = [nt, nj, ni]" "0 < nt" "i < ni" "j < nj"
  shows "entry (returned (read_mask self ''v'')) [i, j] =
           Some ((if el a [0, j, i] = 0 then 1 else 0) *
                 (if el a [0, min (Suc j) (nj - 1), i] = 0 then 1 else 0))"
  using assms by (auto simp add: mask_defs)


section \<open>Corner arrays are fully populated\<close>

lemma lat_assigned:
  assumes sg: "subgrid \<in> {''t'', ''u'', ''v''}"
    and sh: "shape self = (ni, nj)" "1 \<le> ni" "3 \<le> nj"
    and la: "lat_var subgrid = Some la" "variables (domain_cfg self) la = Some a"
      "shp a = [nt, nj, ni]" "0 < nt"
    and ij: "i < ni" "j < nj" "k < 4"
  shows "\<exists>x. (\<forall>mv. entry (read_corner_latitudes_mv dt mv self subgrid) [i, j, k] = Some x) \<and>
           ((\<exists>i' j'. i' < ni \<and> j' < nj \<and> x = el a [0, j', i']) \<or>
            (\<exists>i'. i' < ni \<and>
                  x = subtract dt (multiply dt 2 (el a [0, 1, i'])) (el a [0, 2, i'])))"
proof -
  define P where "P x \<longleftrightarrow>
      (\<exists>i' j'. i' < ni \<and> j' < nj \<and> x = el a [0, j', i']) \<or>
      (\<exists>i'. i' < ni \<and> x = subtract dt (multiply dt 2 (el a [0, 1, i'])) (el a [0, 2, i']))"
    for x
  have S: "P (el a [0, j', i'])" if "i' < ni" "j' < nj" for i' j'
    using that unfolding P_def by blast
  have R: "P (subtract dt (multiply dt 2 (el a [0, 1, i'])) (el a [0, 2, i']))" if "i' < ni" for i'
    using that unfolding P_def by blast
  have w: "(if i = 0 then ni - 1 else i - 1) < ni" "(if i = ni - 1 then 0 else i + 1) < ni"
    "ni - 1 < ni" "ni - 2 - i < ni" "ni - 1 - i < ni" "j - 1 < nj" "nj - 1 < nj"
    using ij(1,2) by auto
  have e: "j \<noteq> nj - 1 \<Longrightarrow> j + 1 < nj" using ij(2) by simp
  from ij(3) have k: "k = 0 \<or> k = 1 \<or> k = 2 \<or> k = 3" by arith
  from sg consider "subgrid = ''t''" | "subgrid = ''u''" | "subgrid = ''v''" by auto
  then have "\<exists>x. (\<forall>mv. entry (read_corner_latitudes_mv dt mv self subgrid) [i, j, k] = Some x) \<and> P x"
  proof cases
    case 1
    with la(1) have "la = ''gphif''" by (simp add: lat_var_def)
    with la have "variables (domain_cfg self) ''gphif'' = Some a" by simp
    note L = lat_t [OF sh this la(3,4) ij(1,2), of dt]
    have "P (el a [0, j, i])" "P (el a [0, j, if i = 0 then ni - 1 else i - 1])"
      "P (if j = 0
          then subtract dt (multiply dt 2 (el a [0, 1, if i = 0 then ni - 1 else i - 1]))
                 (el a [0, 2, if i = 0 then ni - 1 else i - 1])
          else el a [0, j - 1, if i = 0 then ni - 1 else i - 1])"
      "P (if j = 0 then subtract dt (multiply dt 2 (el a [0, 1, i])) (el a [0, 2, i])
          else el a [0, j - 1, i])"
      using S R w ij(1,2) by (simp_all del: One_nat_def)
    with k show ?thesis unfolding 1 using L by metis
  next
    case 2
    with la(1) have "la = ''gphiv''" by (simp add: lat_var_def)
    with la have "variables (domain_cfg self) ''gphiv'' = Some a" by simp
    note L = lat_u [OF sh this la(3,4) ij(1,2), of dt]
    have "P (el a [0, j, if i = ni - 1 then 0 else i + 1])" "P (el a [0, j, i])"
      "P (if j = 0 then subtract dt (multiply dt 2 (el a [0, 1, i])) (el a [0, 2, i])
          else el a [0, j - 1, i])"
      "P (if j = 0
          then subtract dt (multiply dt 2 (el a [0, 1, if i = ni - 1 then 0 else i + 1]))
                 (el a [0, 2, if i = ni - 1 then 0 else i + 1])
          else el a [0, j - 1, if i = ni - 1 then 0 else i + 1])"
      using S R w ij(1,2) by (simp_all del: One_nat_def)
    with k show ?thesis unfolding 2 using L by metis
  next
    case 3
    with la(1) have "la = ''gphiu''" by (simp add: lat_var_def)
    with la have v: "variables (domain_cfg self) ''gphiu'' = Some a" by simp
    from sh(3) have "1 \<le> nj" by simp
    note L = lat_v [OF sh(1,2) this v la(3,4) ij(1,2), of dt]
    have "P (if j = nj - 1
             then (if i = ni - 1 then el a [0, nj - 1, ni - 1]
                   else el a [0, nj - 1, ni - 2 - i])
             else el a [0, j + 1, i])"
      "P (if j = nj - 1 then el a [0, nj - 1, ni - 1 - i]
          else el a [0, j + 1, if i = 0 then ni - 1 else i - 1])"
      "P (el a [0, j, if i = 0 then ni - 1 else i - 1])" "P (el a [0, j, i])"
      using S R w e ij(1,2) by (simp_all del: One_nat_def)
    with k show ?thesis unfolding 3 using L by metis
  qed
  then show ?thesis unfolding P_def .
qed

lemma lon_assigned:
  assumes sg: "subgrid \<in> {''t'', ''u'', ''v''}"
    and sh: "shape self = (ni, nj)" "1 \<le> ni" "3 \<le> nj"
    and lo: "lon_var subgrid = Some lo" "variables (domain_cfg self) lo = Some b"
      "shp b = [nt, nj, ni]" "0 < nt"
    and ij: "i < ni" "j < nj" "k < 4"
  shows "\<exists>y. (\<forall>mv. entry (read_corner_longitudes_mv mv self subgrid) [i, j, k] = Some y) \<and>
           (\<exists>i' j'. i' < ni \<and> j' < nj \<and> y = el b [0, j', i'])"
proof -
  define P where "P y \<longleftrightarrow> (\<exists>i' j'. i' < ni \<and> j' < nj \<and> y = el b [0, j', i'])" for y
  have S: "P (el b [0, j', i'])" if "i' < ni" "j' < nj" for i' j'
    using that unfolding P_def by blast
  have w: "(if i = 0 then ni - 1 else i - 1) < ni" "(if i = ni - 1 then 0 else i + 1) < ni"
    "ni - 1 < ni" "ni - 2 - i < ni" "ni - 1 - i < ni" "j - 1 < nj" "nj - 1 < nj" "1 < nj"
    "0 < nj"
    using ij(1,2) sh(3) by auto
  have e: "j \<noteq> nj - 1 \<Longrightarrow> j + 1 < nj" using ij(2) by simp
  from ij(3) have k: "k = 0 \<or> k = 1 \<or> k = 2 \<or> k = 3" by arith
  from sh(3) have nj: "2 \<le> nj" "1 \<le> nj" by simp_all
  from sg consider "subgrid = ''t''" | "subgrid = ''u''" | "subgrid = ''v''" by auto
  then have "\<exists>y. (\<forall>mv. entry (read_corner_longitudes_mv mv self subgrid) [i, j, k] = Some y) \<and> P y"
  proof cases
    case 1
    with lo(1) have "lo = ''glamf''" by (simp add: lon_var_def)
    with lo have "variables (domain_cfg self) ''glamf'' = Some b" by simp
    note L = lon_t [OF sh(1,2) nj(1) this lo(3,4) ij(1,2)]
    have "P (el b [0, j, i])" "P (el b [0, j, if i = 0 then ni - 1 else i - 1])"
      "P (if j = 0 then el b [0, 1, if i = 0 then ni - 1 else i - 1]
          else el b [0, j - 1, if i = 0 then ni - 1 else i - 1])"
      "P (if j = 0 then el b [0, 1, i] else el b [0, j - 1, i])"
      using S w ij(1,2) by (simp_all del: One_nat_def)
    with k show ?thesis unfolding 1 using L by metis
  next
    case 2
    with lo(1) have "lo = ''glamv''" by (simp add: lon_var_def)
    with lo have "variables (domain_cfg self) ''glamv'' = Some b" by simp
    note L = lon_u [OF sh(1,2) nj(1) this lo(3,4) ij(1,2)]
    have "P (el b [0, j, if i = ni - 1 then 0 else i + 1])" "P (el b [0, j, i])"
      "P (if j = 0 then el b [0, 1, i] else el b [0, j - 1, i])"
      "P (if j = 0 then el b [0, 0, if i = ni - 1 then 0 else i + 1]
          else el b [0, j - 1, if i = ni - 1 then 0 else i + 1])"
      using S w ij(1,2) by (simp_all del: One_nat_def)
    with k show ?thesis unfolding 2 using L by metis
  next
    case 3
    with lo(1) have "lo = ''glamu''" by (simp add: lon_var_def)
    with lo have "variables (domain_cfg self) ''glamu'' = Some b" by simp
    note L = lon_v [OF sh(1,2) nj(2) this lo(3,4) ij(1,2)]
    have "P (if j = nj - 1
             then (if i = ni - 1 then el b [0, nj - 1, ni - 1]
                   else el b [0, nj - 1, ni - 2 - i])
             else el b [0, j + 1, i])"
      "P (if j = nj - 1 then el b [0, nj - 1, ni - 1 - i]
          else el b [0, j + 1, if i = 0 then ni - 1 else i - 1])"
      "P (el b [0, j, if i = 0 then ni - 1 else i - 1])" "P (el b [0, j, i])"
      using S w e ij(1,2) by (simp_all del: One_nat_def)
    with k show ?thesis unfolding 3 using L by metis
  qed
  then show ?thesis unfolding P_def .
qed

lemma grid_of_simps [simp]:
  "shape (grid_of cfg) = (362, 292)" "masks (grid_of cfg) = None" "domain_cfg (grid_of cfg) = cfg"
  by (simp_all add: grid_of_def)

lemma ramp_simps [simp]:
  "shp ramp = [1, 292, 362]" "el ramp [t, j, i] = real i + 1000 * real j"
  by (simp_all add: ramp_def)

lemma zeros_simps [simp]: "shp zeros = [1, 292, 362]" "el zeros is = 0"
  by (simp_all add: zeros_def)

lemma parabola_simps [simp]:
  "shp parabola = [1, 292, 362]" "el parabola [t, j, i] = real i + 1000 * real j * real j"
  by (simp_all add: parabola_def)

lemma steps_simps [simp]:
  "shp steps = [1, 292, 362]"
  "el steps [t, j, i] = (if j = 1 then 100 else if j = 2 then - 100 else 0)"
  by (simp_all add: steps_def)

lemma cfg_var [simp]:
  "vn \<in> set domain_vars \<Longrightarrow> variables ramp_cfg vn = Some ramp"
  "vn \<in> set domain_vars \<Longrightarrow> variables zero_cfg vn = Some zeros"
  "vn \<in> set domain_vars \<Longrightarrow> variables (dataset_of a) vn = Some a"
  by (simp_all add: ramp_cfg_def zero_cfg_def dataset_of_def)

lemma exact_simps [simp]: "multiply exact x y = x * y" "subtract exact x y = x - y"
  by (simp_all add: exact_def)

lemma int8_simps:
  "multiply int8 2 100 = - 56" "subtract int8 (- 56) (- 100) = 44"
  by (simp_all add: int8_def wrap8_def)

text \<open>
  Claim C1. For each subgrid tag \<open>t\<close>, \<open>u\<close>, \<open>v\<close> and coordinate variables of shape
  \<open>(ni, nj)\<close> with \<open>ni \<ge> 2\<close> and \<open>nj \<ge> 3\<close>, the two methods return arrays of
  shape \<open>(ni, nj, 4)\<close> in which every one of the \<open>ni * nj * 4\<close> entries has been stored by
  an assignment. The entry is the same whatever value the array was initialised to, and
  it is a value taken from the input: a sample of the coordinate variable the method
  reads or, for latitudes, the reflection \<open>2 * v[i', 1] - v[i', 2]\<close> of two samples. No
  entry is a leftover of the initial \<open>_MISSING_VALUE\<close>.
\<close>

theorem corner_entries_all_assigned:
  assumes sg: "subgrid \<in> {''t'', ''u'', ''v''}"
    and sh: "shape self = (ni, nj)" "2 \<le> ni" "3 \<le> nj"
    and la: "lat_var subgrid = Some la" "variables (domain_cfg self) la = Some a"
      "shp a = [nt, nj, ni]" "0 < nt"
    and lo: "lon_var subgrid = Some lo" "variables (domain_cfg self) lo = Some b"
      "shp b = [nt', nj, ni]" "0 < nt'"
    and ij: "i < ni" "j < nj" "k < 4"
  shows "shape_of (read_corner_latitudes dt self subgrid) = Some [ni, nj, 4] \<and>
         shape_of (read_corner_longitudes self subgrid) = Some [ni, nj, 4] \<and>
         (\<exists>x y.
            entry (read_corner_latitudes dt self subgrid) [i, j, k] = Some x \<and>
            entry (read_corner_longitudes self subgrid) [i, j, k] = Some y \<and>
            (\<forall>mv. entry (read_corner_latitudes_mv dt mv self subgrid) [i, j, k] = Some x \<and>
                  entry (read_corner_longitudes_mv mv self subgrid) [i, j, k] = Some y) \<and>
            ((\<exists>i' j'. i' < ni \<and> j' < nj \<and> x = el a [0, j', i']) \<or>
             (\<exists>i'. i' < ni \<and>
                   x = subtract dt (multiply dt 2 (el a [0, 1, i'])) (el a [0, 2, i']))) \<and>
            (\<exists>i' j'. i' < ni \<and> j' < nj \<and> y = el b [0, j', i']))"
proof (intro conjI)
  from sh(2) have ni: "1 \<le> ni" by simp
  show "shape_of (read_corner_latitudes dt self subgrid) = Some [ni, nj, 4]"
    unfolding read_corner_latitudes_def
    by (rule corner_shapes [OF sh(1) ni sh(3) sg la])
  show "shape_of (read_corner_longitudes self subgrid) = Some [ni, nj, 4]"
    unfolding read_corner_longitudes_def
    by (rule corner_shapes_lon [OF sh(1) ni sh(3) sg lo])
  from lat_assigned [OF sg sh(1) ni sh(3) la ij, of dt] obtain x where
    x: "\<And>mv. entry (read_corner_latitudes_mv dt mv self subgrid) [i, j, k] = Some x"
      "(\<exists>i' j'. i' < ni \<and> j' < nj \<and> x = el a [0, j', i']) \<or>
       (\<exists>i'. i' < ni \<and> x = subtract dt (multiply dt 2 (el a [0, 1, i'])) (el a [0, 2, i']))"
    by blast
  from lon_assigned [OF sg sh(1) ni sh(3) lo ij] obtain y where
    y: "\<And>mv. entry (read_corner_longitudes_mv mv self subgrid) [i, j, k] = Some y"
      "\<exists>i' j'. i' < ni \<and> j' < nj \<and> y = el b [0, j', i']"
    by blast
  show "\<exists>x y.
            entry (read_corner_latitudes dt self subgrid) [i, j, k] = Some x \<and>
            entry (read_corner_longitudes self subgrid) [i, j, k] = Some y \<and>
            (\<forall>mv. entry (read_corner_latitudes_mv dt mv self subgrid) [i, j, k] = Some x \<and>
                  entry (read_corner_longitudes_mv mv self subgrid) [i, j, k] = Some y) \<and>
            ((\<exists>i' j'. i' < ni \<and> j' < nj \<and> x = el a [0, j', i']) \<or>
             (\<exists>i'. i' < ni \<and>
                   x = subtract dt (multiply dt 2 (el a [0, 1, i'])) (el a [0, 2, i']))) \<and>
            (\<exists>i' j'. i' < ni \<and> j' < nj \<and> y = el b [0, j', i'])"
    unfolding read_corner_latitudes_def read_corner_longitudes_def
    using x y by (intro exI [of _ x] exI [of _ y]) simp
qed

theorem corner_entries_all_assigned_witness:
  "shape_of (read_corner_latitudes exact (grid_of (dataset_of parabola)) ''t'') =
     Some [362, 292, 4] \<and>
   shape_of (read_corner_longitudes (grid_of (dataset_of parabola)) ''t'') =
     Some [362, 292, 4] \<and>
   (\<exists>x y.
      entry (read_corner_latitudes exact (grid_of (dataset_of parabola)) ''t'') [0, 0, 2] =
        Some x \<and>
      entry (read_corner_longitudes (grid_of (dataset_of parabola)) ''t'') [0, 0, 2] =
        Some y \<and>
      (\<forall>mv. entry (read_corner_latitudes_mv exact mv (grid_of (dataset_of parabola)) ''t'')
               [0, 0, 2] = Some x \<and>
            entry (read_corner_longitudes_mv mv (grid_of (dataset_of parabola)) ''t'')
               [0, 0, 2] = Some y) \<and>
      ((\<exists>i' j'. i' < 362 \<and> j' < 292 \<and> x = el parabola [0, j', i']) \<or>
       (\<exists>i'. i' < 362 \<and> x = 2 * el parabola [0, 1, i'] - el parabola [0, 2, i'])) \<and>
      (\<exists>i' j'. i' < 362 \<and> j' < 292 \<and> y = el parabola [0, j', i']))"
  using corner_entries_all_assigned
    [where subgrid = "''t''" and self = "grid_of (dataset_of parabola)" and ni = 362
       and nj = 292 and la = "''gphif''" and a = parabola and nt = 1 and lo = "''glamf''"
       and b = parabola and nt' = 1 and i = 0 and j = 0 and k = 2 and dt = exact]
  by (simp add: lat_var_def lon_var_def domain_vars_def)

section \<open>Edge rules of the T subgrid\<close>

text \<open>
  Claim C6. For the T subgrid at the southern row \<open>j = 0\<close>, the latitude corners 3 and 2
  are the linear reflection \<open>2 * v[:, 1] - v[:, 2]\<close> of the F-point latitudes \<open>gphif\<close>,
  computed by NumPy in the dtype \<open>dt\<close> of that variable, and the longitude corners 3 and
  2 are the plain copy \<open>v[:, 1]\<close> of the F-point longitudes \<open>glamf\<close>. Corner 3 reads
  column \<open>i\<close>; corner 2 reads the column to the west, \<open>i - 1\<close>, which is \<open>ni - 1\<close> for
  \<open>i = 0\<close>.
\<close>

theorem t_southern_row_corners:
  assumes "shape self = (ni, nj)" "2 \<le> ni" "3 \<le> nj"
    and "variables (domain_cfg self) ''gphif'' = Some a" "shp a = [nt, nj, ni]" "0 < nt"
    and "variables (domain_cfg self) ''glamf'' = Some b" "shp b = [nt', nj, ni]" "0 < nt'"
    and "i < ni"
  shows "entry (read_corner_latitudes dt self ''t'') [i, 0, 3] =
           Some (subtract dt (multiply dt 2 (el a [0, 1, i])) (el a [0, 2, i])) \<and>
         entry (read_corner_latitudes dt self ''t'') [i, 0, 2] =
           Some (subtract dt
                   (multiply dt 2 (el a [0, 1, if i = 0 then ni - 1 else i - 1]))
                   (el a [0, 2, if i = 0 then ni - 1 else i - 1])) \<and>
         entry (read_corner_longitudes self ''t'') [i, 0, 3] = Some (el b [0, 1, i]) \<and>
         entry (read_corner_longitudes self ''t'') [i, 0, 2] =
           Some (el b [0, 1, if i = 0 then ni - 1 else i - 1])"
proof -
  from assms have n: "1 \<le> ni" "2 \<le> nj" "0 < nj" by simp_all
  note A = lat_t [OF assms(1) n(1) assms(3) assms(4-6) assms(10) n(3), of dt]
  note B = lon_t [OF assms(1) n(1) n(2) assms(7-9) assms(10) n(3)]
  show ?thesis
    unfolding read_corner_latitudes_def read_corner_longitudes_def
    using A(3,4) B(3,4) by simp
qed

theorem t_southern_row_corners_witness:
  "entry (read_corner_latitudes exact (grid_of (dataset_of parabola)) ''t'') [0, 0, 3] =
     Some (- 2000) \<and>
   entry (read_corner_latitudes exact (grid_of (dataset_of parabola)) ''t'') [0, 0, 2] =
     Some (- 1639) \<and>
   entry (read_corner_longitudes (grid_of (dataset_of parabola)) ''t'') [0, 0, 3] =
     Some 1000 \<and>
   entry (read_corner_longitudes (grid_of (dataset_of parabola)) ''t'') [0, 0, 2] =
     Some 1361 \<and>
   entry (read_corner_latitudes int8 (grid_of (dataset_of steps)) ''t'') [0, 0, 3] =
     Some 44 \<and>
   entry (read_corner_longitudes (grid_of (dataset_of steps)) ''t'') [0, 0, 3] = Some 100"
  using
    t_southern_row_corners
      [where self = "grid_of (dataset_of parabola)" and ni = 362 and nj = 292
         and a = parabola and nt = 1 and b = parabola and nt' = 1 and i = 0 and dt = exact]
    t_southern_row_corners
      [where self = "grid_of (dataset_of steps)" and ni = 362 and nj = 292
         and a = steps and nt = 1 and b = steps and nt' = 1 and i = 0 and dt = int8]
  by (simp add: domain_vars_def int8_simps)

section \<open>The V subgrid\<close>

text \<open>
  Claim C9. The V subgrid is periodic in \<open>i\<close> as well: at \<open>i = 0\<close> and every row
  \<open>j < nj - 1\<close>, corners 1 and 2 are read from column \<open>ni - 1\<close> of the U-point array
  (\<open>gphiu\<close> for latitudes, \<open>glamu\<close> for longitudes).
\<close>

theorem v_zonal_wraparound:
  assumes "shape self = (ni, nj)" "2 \<le> ni" "3 \<le> nj"
    and "variables (domain_cfg self) ''gphiu'' = Some a" "shp a = [nt, nj, ni]" "0 < nt"
    and "variables (domain_cfg self) ''glamu'' = Some b" "shp b = [nt', nj, ni]" "0 < nt'"
    and "j < nj - 1"
  shows "entry (read_corner_latitudes dt self ''v'') [0, j, 1] = Some (el a [0, j + 1, ni - 1]) \<and>
         entry (read_corner_latitudes dt self ''v'') [0, j, 2] = Some (el a [0, j, ni - 1]) \<and>
         entry (read_corner_longitudes self ''v'') [0, j, 1] = Some (el b [0, j + 1, ni - 1]) \<and>
         entry (read_corner_longitudes self ''v'') [0, j, 2] = Some (el b [0, j, ni - 1])"
proof -
  from assms have n: "1 \<le> ni" "1 \<le> nj" "0 < ni" "j < nj" "j \<noteq> nj - 1" by simp_all
  note A = lat_v [OF assms(1) n(1,2) assms(4-6) n(3,4)]
  note B = lon_v [OF assms(1) n(1,2) assms(7-9) n(3,4)]
  show ?thesis
    unfolding read_corner_latitudes_def read_corner_longitudes_def
    using A(2,3) B(2,3) n(5) by simp
qed

theorem v_zonal_wraparound_witness:
  "entry (read_corner_latitudes exact (grid_of ramp_cfg) ''v'') [0, 5, 1] = Some 6361 \<and>
   entry (read_corner_latitudes exact (grid_of ramp_cfg) ''v'') [0, 5, 2] = Some 5361 \<and>
   entry (read_corner_longitudes (grid_of ramp_cfg) ''v'') [0, 5, 1] = Some 6361 \<and>
   entry (read_corner_longitudes (grid_of ramp_cfg) ''v'') [0, 5, 2] = Some 5361"
  using v_zonal_wraparound
    [where self = "grid_of ramp_cfg" and ni = 362 and nj = 292 and a = ramp and nt = 1
       and b = ramp and nt' = 1 and j = 5 and dt = exact]
  by (simp add: domain_vars_def)

text \<open>
  Claim C3, as stated, fails. On the ramp dataset the northern row of the V subgrid has
  corner 1 equal to 291361 at column 0 and to 291000 at the mirrored column 361, and
  corner 0 equal to 291360 and 291361; the same holds for the longitudes.
\<close>

theorem v_fold_not_symmetric:
  "entry (read_corner_latitudes exact (grid_of ramp_cfg) ''v'') [0, 291, 1] = Some 291361 \<and>
   entry (read_corner_latitudes exact (grid_of ramp_cfg) ''v'') [361, 291, 1] = Some 291000 \<and>
   entry (read_corner_latitudes exact (grid_of ramp_cfg) ''v'') [0, 291, 0] = Some 291360 \<and>
   entry (read_corner_latitudes exact (grid_of ramp_cfg) ''v'') [361, 291, 0] = Some 291361 \<and>
   entry (read_corner_longitudes (grid_of ramp_cfg) ''v'') [0, 291, 1] = Some 291361 \<and>
   entry (read_corner_longitudes (grid_of ramp_cfg) ''v'') [361, 291, 1] = Some 291000 \<and>
   entry (read_corner_longitudes (grid_of ramp_cfg) ''v'') [0, 291, 0] = Some 291360 \<and>
   entry (read_corner_longitudes (grid_of ramp_cfg) ''v'') [361, 291, 0] = Some 291361"
proof -
  have s: "shape (grid_of ramp_cfg) = (362, 292)" by (simp add: grid_of_def)
  have a: "variables (domain_cfg (grid_of ramp_cfg)) ''gphiu'' = Some ramp"
    "variables (domain_cfg (grid_of ramp_cfg)) ''glamu'' = Some ramp"
    by (simp_all add: domain_vars_def)
  have r: "shp ramp = [1, 292, 362]" by (simp add: ramp_def)
  note A =
    lat_v [OF s _ _ a(1) r, where i = 0 and j = 291 and mv = MISSING_VALUE and dt = exact]
    lat_v [OF s _ _ a(1) r, where i = 361 and j = 291 and mv = MISSING_VALUE and dt = exact]
  note B =
    lon_v [OF s _ _ a(2) r, where i = 0 and j = 291 and mv = MISSING_VALUE]
    lon_v [OF s _ _ a(2) r, where i = 361 and j = 291 and mv = MISSING_VALUE]
  show ?thesis
    unfolding read_corner_latitudes_def read_corner_longitudes_def
    using A B by simp
qed

text \<open>
  Claim C3, amended. For the V subgrid the northern row \<open>j = nj - 1\<close> is filled from the
  last row of the U-point array read in reverse: corner 1 at column \<open>i\<close> is the array's
  value at column \<open>ni - 1 - i\<close>, which is corner 3 of the mirrored cell, and corner 0 at
  column \<open>i\<close> is corner 1 of the next column \<open>(i + 1) mod ni\<close>; for latitudes and
  longitudes alike.
\<close>

theorem v_fold_reversed_row:
  assumes "shape self = (ni, nj)" "2 \<le> ni" "3 \<le> nj"
    and "variables (domain_cfg self) ''gphiu'' = Some a" "shp a = [nt, nj, ni]" "0 < nt"
    and "variables (domain_cfg self) ''glamu'' = Some b" "shp b = [nt', nj, ni]" "0 < nt'"
    and "i < ni"
  shows "entry (read_corner_latitudes dt self ''v'') [i, nj - 1, 1] =
           Some (el a [0, nj - 1, ni - 1 - i]) \<and>
         entry (read_corner_latitudes dt self ''v'') [i, nj - 1, 1] =
           entry (read_corner_latitudes dt self ''v'') [ni - 1 - i, nj - 1, 3] \<and>
         entry (read_corner_latitudes dt self ''v'') [i, nj - 1, 0] =
           entry (read_corner_latitudes dt self ''v'') [(i + 1) mod ni, nj - 1, 1] \<and>
         entry (read_corner_longitudes self ''v'') [i, nj - 1, 1] =
           Some (el b [0, nj - 1, ni - 1 - i]) \<and>
         entry (read_corner_longitudes self ''v'') [i, nj - 1, 1] =
           entry (read_corner_longitudes self ''v'') [ni - 1 - i, nj - 1, 3] \<and>
         entry (read_corner_longitudes self ''v'') [i, nj - 1, 0] =
           entry (read_corner_longitudes self ''v'') [(i + 1) mod ni, nj - 1, 1]"
proof -
  from assms have n: "1 \<le> ni" "1 \<le> nj" "nj - 1 < nj" "ni - 1 - i < ni" "(i + 1) mod ni < ni"
    by simp_all
  have m: "(i + 1) mod ni = (if i = ni - 1 then 0 else i + 1)"
    using assms(2,10) by (auto simp add: mod_Suc)
  have d: "ni - 1 - (i + 1) = ni - 2 - i" by simp
  note A = lat_v [OF assms(1) n(1,2) assms(4-6) assms(10) n(3)]
    lat_v [OF assms(1) n(1,2) assms(4-6) n(4) n(3)]
    lat_v [OF assms(1) n(1,2) assms(4-6) n(5) n(3)]
  note B = lon_v [OF assms(1) n(1,2) assms(7-9) assms(10) n(3)]
    lon_v [OF assms(1) n(1,2) assms(7-9) n(4) n(3)]
    lon_v [OF assms(1) n(1,2) assms(7-9) n(5) n(3)]
  show ?thesis
    unfolding read_corner_latitudes_def read_corner_longitudes_def
    using A B d m by simp
qed

theorem v_fold_reversed_row_witness:
  "entry (read_corner_latitudes exact (grid_of ramp_cfg) ''v'') [0, 291, 1] = Some 291361 \<and>
   entry (read_corner_latitudes exact (grid_of ramp_cfg) ''v'') [0, 291, 1] =
     entry (read_corner_latitudes exact (grid_of ramp_cfg) ''v'') [361, 291, 3] \<and>
   entry (read_corner_latitudes exact (grid_of ramp_cfg) ''v'') [0, 291, 0] =
     entry (read_corner_latitudes exact (grid_of ramp_cfg) ''v'') [1, 291, 1] \<and>
   entry (read_corner_longitudes (grid_of ramp_cfg) ''v'') [0, 291, 1] = Some 291361 \<and>
   entry (read_corner_longitudes (grid_of ramp_cfg) ''v'') [0, 291, 1] =
     entry (read_corner_longitudes (grid_of ramp_cfg) ''v'') [361, 291, 3] \<and>
   entry (read_corner_longitudes (grid_of ramp_cfg) ''v'') [0, 291, 0] =
     entry (read_corner_longitudes (grid_of ramp_cfg) ''v'') [1, 291, 1]"
  using v_fold_reversed_row
    [where self = "grid_of ramp_cfg" and ni = 362 and nj = 292 and a = ramp and nt = 1
       and b = ramp and nt' = 1 and i = 0 and dt = exact]
  by (auto simp add: domain_vars_def)

section \<open>The copied corner of the longitude edge\<close>

text \<open>
  Claim C7, as stated, fails. For the V subgrid corner 3 is the U-point longitude of the
  cell itself, so on the ramp dataset the entries at \<open>j = 0\<close> and \<open>j = 1\<close> differ.
\<close>

theorem v_longitude_corner3_not_copied:
  "entry (read_corner_longitudes (grid_of ramp_cfg) ''v'') [0, 0, 3] = Some 0 \<and>
   entry (read_corner_longitudes (grid_of ramp_cfg) ''v'') [0, 1, 3] = Some 1000"
proof -
  have s: "shape (grid_of ramp_cfg) = (362, 292)" by simp
  have a: "variables (domain_cfg (grid_of ramp_cfg)) ''glamu'' = Some ramp"
    by (simp add: domain_vars_def)
  have r: "shp ramp = [1, 292, 362]" by simp
  note B = lon_v [OF s _ _ a r, of 0 0 MISSING_VALUE] lon_v [OF s _ _ a r, of 0 1 MISSING_VALUE]
  show ?thesis
    unfolding read_corner_longitudes_def using B by simp
qed

text \<open>
  Claim C7, amended. It is the U subgrid whose corner-longitude array satisfies
  \<open>corner_lons[:, 0, 3] == corner_lons[:, 1, 3]\<close>: the \<open>j = 0\<close> entry of corner 3 is a
  copy of the \<open>j = 1\<close> entry stored just before, which is the V-point longitude
  \<open>glamv\<close> of row 0 at the eastern neighbour column.
\<close>

theorem u_longitude_corner3_copied:
  assumes "shape self = (ni, nj)" "2 \<le> ni" "3 \<le> nj"
    and "variables (domain_cfg self) ''glamv'' = Some b" "shp b = [nt, nj, ni]" "0 < nt"
    and "i < ni"
  shows "entry (read_corner_longitudes self ''u'') [i, 0, 3] =
           entry (read_corner_longitudes self ''u'') [i, 1, 3] \<and>
         entry (read_corner_longitudes self ''u'') [i, 1, 3] =
           Some (el b [0, 0, if i = ni - 1 then 0 else i + 1])"
proof -
  from assms have n: "1 \<le> ni" "2 \<le> nj" "0 < nj" "1 < nj" by simp_all
  note B = lon_u [OF assms(1) n(1,2) assms(4-6) assms(7) n(3)]
    lon_u [OF assms(1) n(1,2) assms(4-6) assms(7) n(4)]
  show ?thesis
    unfolding read_corner_longitudes_def using B(4,8) by simp
qed

theorem u_longitude_corner3_copied_witness:
  "entry (read_corner_longitudes (grid_of ramp_cfg) ''u'') [361, 0, 3] =
     entry (read_corner_longitudes (grid_of ramp_cfg) ''u'') [361, 1, 3] \<and>
   entry (read_corner_longitudes (grid_of ramp_cfg) ''u'') [361, 1, 3] = Some 0"
  using u_longitude_corner3_copied [of "grid_of ramp_cfg" 362 292 ramp 1 361]
  by (auto simp add: domain_vars_def)

section \<open>Masks derived from \<open>top_level\<close>\<close>

text \<open>
  Claim C2. Without a mask file, the T mask is 1 where \<open>top_level\<close> is 0 and 0
  elsewhere; the U mask at \<open>(i, j)\<close> is the product of the T mask at \<open>(i, j)\<close> and at
  \<open>((i + 1) mod ni, j)\<close>; the V mask is the product of the T mask at \<open>(i, j)\<close> and at
  \<open>(i, min (j + 1) (nj - 1))\<close>.
\<close>

theorem masks_from_top_level:
  assumes "masks self = None" "variables (domain_cfg self) ''top_level'' = Some a"
    and "shp a = [nt, nj, ni]" "0 < nt" "i < ni" "j < nj"
  shows "\<exists>t te tn.
           entry (returned (read_mask self ''t'')) [i, j] = Some t \<and>
           entry (returned (read_mask self ''t'')) [(i + 1) mod ni, j] = Some te \<and>
           entry (returned (read_mask self ''t'')) [i, min (j + 1) (nj - 1)] = Some tn \<and>
           t = (if el a [0, j, i] = 0 then 1 else 0) \<and>
           entry (returned (read_mask self ''u'')) [i, j] = Some (t * te) \<and>
           entry (returned (read_mask self ''v'')) [i, j] = Some (t * tn)"
proof -
  from assms have n: "(i + 1) mod ni < ni" "min (j + 1) (nj - 1) < nj" by auto
  note T = mask_t [OF assms(1-4)]
  show ?thesis
    using T [OF assms(5,6)] T [OF n(1) assms(6)] T [OF assms(5) n(2)]
      mask_u [OF assms] mask_v [OF assms]
    by simp
qed

theorem masks_from_top_level_witness:
  "\<exists>t te tn.
     entry (returned (read_mask (grid_of ramp_cfg) ''t'')) [361, 0] = Some t \<and>
     entry (returned (read_mask (grid_of ramp_cfg) ''t'')) [0, 0] = Some te \<and>
     entry (returned (read_mask (grid_of ramp_cfg) ''t'')) [361, 1] = Some tn \<and>
     t = 0 \<and>
     entry (returned (read_mask (grid_of ramp_cfg) ''u'')) [361, 0] = Some (t * te) \<and>
     entry (returned (read_mask (grid_of ramp_cfg) ''v'')) [361, 0] = Some (t * tn)"
  using masks_from_top_level [of "grid_of ramp_cfg" ramp 1 292 362 361 0]
  by (simp add: domain_vars_def)




text \<open>
  Claim C5, as stated, fails. With \<open>top_level\<close> zero everywhere the masks of the three
  subgrids are 1 at \<open>(0, 0)\<close>, not 0.
\<close>

theorem all_zero_top_level_is_all_land:
  "entry (returned (read_mask (grid_of zero_cfg) ''t'')) [0, 0] = Some 1 \<and>
   entry (returned (read_mask (grid_of zero_cfg) ''u'')) [0, 0] = Some 1 \<and>
   entry (returned (read_mask (grid_of zero_cfg) ''v'')) [0, 0] = Some 1"
proof -
  have m: "masks (grid_of zero_cfg) = None" by simp
  have a: "variables (domain_cfg (grid_of zero_cfg)) ''top_level'' = Some zeros"
    by (simp add: domain_vars_def)
  have r: "shp zeros = [1, 292, 362]" by simp
  show ?thesis
    using mask_t [OF m a r, of 0 0] mask_u [OF m a r, of 0 0] mask_v [OF m a r, of 0 0]
    by simp
qed

text \<open>
  Claim C5, amended. If \<open>top_level\<close> is zero everywhere, \<open>read_mask\<close> without a mask file
  returns a mask that is 1 everywhere, for each of the subgrids T, U and V.
\<close>

theorem all_zero_top_level_masks:
  assumes "masks self = None" "variables (domain_cfg self) ''top_level'' = Some a"
    and "shp a = [nt, nj, ni]" "0 < nt"
    and zero: "\<And>x y. x < ni \<Longrightarrow> y < nj \<Longrightarrow> el a [0, y, x] = 0"
    and "i < ni" "j < nj"
  shows "entry (returned (read_mask self ''t'')) [i, j] = Some 1 \<and>
         entry (returned (read_mask self ''u'')) [i, j] = Some 1 \<and>
         entry (returned (read_mask self ''v'')) [i, j] = Some 1"
proof -
  from assms have n: "Suc i mod ni < ni" "min (Suc j) (nj - 1) < nj" by auto
  have z: "el a [0, j, i] = 0" "el a [0, j, Suc i mod ni] = 0"
    "el a [0, min (Suc j) (nj - 1), i] = 0"
    using zero assms(6,7) n by simp_all
  show ?thesis
    using mask_t [OF assms(1-4) assms(6,7)] mask_u [OF assms(1-4) assms(6,7)]
      mask_v [OF assms(1-4) assms(6,7)] z
    by simp
qed

theorem all_zero_top_level_masks_witness:
  "entry (returned (read_mask (grid_of zero_cfg) ''t'')) [361, 291] = Some 1 \<and>
   entry (returned (read_mask (grid_of zero_cfg) ''u'')) [361, 291] = Some 1 \<and>
   entry (returned (read_mask (grid_of zero_cfg) ''v'')) [361, 291] = Some 1"
  using all_zero_top_level_masks [of "grid_of zero_cfg" zeros 1 292 362 361 291]
  by (simp add: domain_vars_def)

text \<open>
  Claim C10. Without a mask file, the U mask and the V mask are pointwise at most the T
  mask, and every entry of the three masks is 0 or 1.
\<close>

theorem masks_bounded_by_tmask:
  assumes "masks self = None" "variables (domain_cfg self) ''top_level'' = Some a"
    and "shp a = [nt, nj, ni]" "0 < nt" "i < ni" "j < nj"
  shows "\<exists>t u v.
           entry (returned (read_mask self ''t'')) [i, j] = Some t \<and>
           entry (returned (read_mask self ''u'')) [i, j] = Some u \<and>
           entry (returned (read_mask self ''v'')) [i, j] = Some v \<and>
           u \<le> t \<and> v \<le> t \<and> t \<in> {0, 1} \<and> u \<in> {0, 1} \<and> v \<in> {0, 1}"
  using mask_t [OF assms] mask_u [OF assms] mask_v [OF assms] by simp

theorem masks_bounded_by_tmask_witness:
  "\<exists>t u v.
     entry (returned (read_mask (grid_of ramp_cfg) ''t'')) [0, 0] = Some t \<and>
     entry (returned (read_mask (grid_of ramp_cfg) ''u'')) [0, 0] = Some u \<and>
     entry (returned (read_mask (grid_of ramp_cfg) ''v'')) [0, 0] = Some v \<and>
     u \<le> t \<and> v \<le> t \<and> t \<in> {0, 1} \<and> u \<in> {0, 1} \<and> v \<in> {0, 1}"
  using masks_bounded_by_tmask [of "grid_of ramp_cfg" ramp 1 292 362 0 0]
  by (simp add: domain_vars_def)

section \<open>The constructor fails closed\<close>

lemma issubset_iff: "issubset names m = (\<forall>n \<in> set names. m n \<noteq> None)"
  by (simp add: issubset_def list_all_iff)

lemma orca_names_None:
  "(ni, nj, nk) \<noteq> (362, 292, 75) \<Longrightarrow> (ni, nj, nk) \<noteq> (360, 331, 75) \<Longrightarrow>
     orca_names (ni, nj, nk) = None"
  by (simp add: orca_names_def)

lemma ramp_grid_constructed: "OrcaGrid_init ramp_cfg None = Inr (grid_of ramp_cfg)"
  by (simp add: OrcaGrid_init_def ramp_cfg_def dataset_of_def grid_of_def orca_names_def
      issubset_def list_all_iff)

lemma zero_grid_constructed: "OrcaGrid_init zero_cfg None = Inr (grid_of zero_cfg)"
  by (simp add: OrcaGrid_init_def zero_cfg_def dataset_of_def grid_of_def orca_names_def
      issubset_def list_all_iff)

text \<open>
  Claim C8. The constructor raises its configuration error, a \<open>RuntimeError\<close> in the
  source, and returns no object when the dimension triple is not one of the two of
  \<open>_orca_names\<close>, when one of the dimensions \<open>x\<close>, \<open>y\<close>, \<open>z\<close> is missing, and when a
  required variable is missing. A grid that is returned carries the name the table gives
  for the dataset's dimensions: there is no default.
\<close>

theorem init_fails_closed:
  "(dimensions cfg ''x'' = Some ni \<and> dimensions cfg ''y'' = Some nj \<and>
    dimensions cfg ''z'' = Some nk \<and> (ni, nj, nk) \<notin> {(362, 292, 75), (360, 331, 75)}
      \<longrightarrow> OrcaGrid_init cfg msk =
            Inl (RuntimeError ''Unknown dimensions in NEMO domain config'')) \<and>
   (dimensions cfg ''x'' = None \<or> dimensions cfg ''y'' = None \<or> dimensions cfg ''z'' = None
      \<longrightarrow> OrcaGrid_init cfg msk =
            Inl (RuntimeError ''Missing dimensions in NEMO domain config'')) \<and>
   ((\<exists>vn \<in> set domain_vars. variables cfg vn = None)
      \<longrightarrow> (\<exists>msg. OrcaGrid_init cfg msk = Inl (RuntimeError msg))) \<and>
   (\<forall>g. OrcaGrid_init cfg msk = Inr g \<longrightarrow>
      (\<exists>nk. orca_names (fst (shape g), snd (shape g), nk) = Some (name g) \<and>
            dimensions cfg ''z'' = Some nk) \<and>
      dimensions cfg ''x'' = Some (fst (shape g)) \<and>
      dimensions cfg ''y'' = Some (snd (shape g)) \<and>
      (\<forall>vn \<in> set domain_vars. variables cfg vn \<noteq> None))"
  by (auto simp add: OrcaGrid_init_def orca_names_None issubset_iff Let_def
      split: option.splits if_splits)


theorem init_fails_closed_witness:
  "OrcaGrid_init (ramp_cfg\<lparr>dimensions := map_of [(''x'', 362), (''y'', 292), (''z'', 31)]\<rparr>)
     None = Inl (RuntimeError ''Unknown dimensions in NEMO domain config'') \<and>
   OrcaGrid_init (ramp_cfg\<lparr>dimensions := map_of [(''x'', 362), (''y'', 292)]\<rparr>) None =
     Inl (RuntimeError ''Missing dimensions in NEMO domain config'') \<and>
   (\<exists>msg. OrcaGrid_init (ramp_cfg\<lparr>variables := Map.empty\<rparr>) None =
           Inl (RuntimeError msg))"
proof (intro conjI)
  show "OrcaGrid_init (ramp_cfg\<lparr>dimensions := map_of [(''x'', 362), (''y'', 292), (''z'', 31)]\<rparr>)
     None = Inl (RuntimeError ''Unknown dimensions in NEMO domain config'')"
    by (rule init_fails_closed [THEN conjunct1, THEN mp, of _ 362 292 31]) simp
  show "OrcaGrid_init (ramp_cfg\<lparr>dimensions := map_of [(''x'', 362), (''y'', 292)]\<rparr>) None =
     Inl (RuntimeError ''Missing dimensions in NEMO domain config'')"
    by (rule init_fails_closed [THEN conjunct2, THEN conjunct1, THEN mp]) simp
  show "\<exists>msg. OrcaGrid_init (ramp_cfg\<lparr>variables := Map.empty\<rparr>) None =
           Inl (RuntimeError msg)"
    by (rule init_fails_closed [THEN conjunct2, THEN conjunct2, THEN conjunct1, THEN mp])
      (rule bexI [of _ "''top_level''"], simp_all add: domain_vars_def)
qed

end
